theory Spec2Isabelle
  imports Complex_Main "HOL-Library.Multiset" "HOL-Library.Sublist"
begin

section \<open>Data model\<close>

text \<open>
  The records stored under the local-storage keys \<open>issuesData\<close> and \<open>usersData\<close>.
  An issue has the fields that \<open>handleSubmit\<close> writes (ReportIssue.tsx, lines 64--78);
  a user has the fields of the \<open>User\<close> interface of the dashboard. The source's field
  \<open>id\<close> is \<open>issue_id\<close> resp. \<open>user_id\<close> here, and \<open>type\<close> is \<open>type_u\<close>.
  A JavaScript \<open>null\<close> is \<open>None\<close>. Strings are lists of code units, so that \<open>length\<close>
  is the source's \<open>.length\<close>.

  Numbers: \<open>xp_points\<close> is an integer, as the specification has it; the source holds it
  in a double, and the sum of line 90 is rounded as a sum of doubles is (\<open>js_plus\<close> below).
  The priority rating is a rational number: the source computes it in double precision,
  where the integer handed to the final division by ten is the same as in exact arithmetic
  for every description length, and the rating is the double nearest to that many tenths.
\<close>

record Issue =
  issue_id :: string
  title :: string
  description :: string
  status :: string
  severity :: string
  location :: string
  reporter_id :: string
  image_url :: "string option"
  created_at :: string
  solver_id :: "string option"
  solution_image_url :: "string option"
  solved_at :: "string option"
  priorityRating :: rat

datatype user_type = citizen | ngo

record User =
  user_id :: string
  email :: string
  name :: string
  type_u :: user_type
  xp_points :: int

text \<open>
  The two documents of the local storage, as \<open>JSON.parse\<close> returns them: an object whose
  field \<open>issues\<close> (resp. \<open>citizens\<close>) is an array or is absent (\<open>undefined\<close>).
\<close>

record issues_doc =
  issues :: "Issue list option"

record users_doc =
  citizens :: "User list option"

datatype js_error = TypeError

datatype toast = Toast (variant: "string option") (toast_title: string) (toast_description: string)

text \<open>
  The state the two components read and write: the two local-storage items (\<open>None\<close>: the
  key is not set, \<open>getItem\<close> returns \<open>null\<close>), the user of the authentication context,
  the toasts shown, the routes navigated to, what \<open>console.error\<close> received, and the React
  state of the pages (\<open>loading\<close> of the report form; \<open>issues\<close> and \<open>topCitizens\<close> of the
  dashboard, the former named \<open>issues_st\<close> here).
\<close>

record world =
  issuesData :: "issues_doc option"
  usersData :: "users_doc option"
  user :: "User option"
  loading :: bool
  toasts :: "toast list"
  navigated :: "string list"
  console_errors :: "js_error list"
  issues_st :: "Issue list"
  topCitizens :: "User list"

text \<open>The React state of the report form (\<open>useState\<close>, ReportIssue.tsx lines 23--30).\<close>

record report_form =
  f_title :: string
  f_description :: string
  f_severity :: string
  f_location :: string
  f_image :: "string option"
  f_verified :: bool

text \<open>
  What a submission takes from its environment: the string of \<open>Math.random()\<close>, the
  string of the current date, and the URL that \<open>URL.createObjectURL\<close> returns for the image.
\<close>

record env =
  random_string :: string
  now_iso :: string
  object_url :: string

section \<open>Priority rating (ReportIssue.tsx, lines 34--39)\<close>

definition severityScore :: "string \<Rightarrow> rat" where
  "severityScore sev = (if sev = ''high'' then 3 else if sev = ''medium'' then 2 else 1)"

definition descriptionScore :: "string \<Rightarrow> rat" where
  "descriptionScore descr = min (of_nat (length descr) / 100) 2"

text \<open>\<open>Math.round\<close>: the nearest integer, a tie going up.\<close>

definition Math_round :: "rat \<Rightarrow> int" where
  "Math_round x = \<lfloor>x + 1 / 2\<rfloor>"

definition calculatePriorityRating :: "string \<Rightarrow> string \<Rightarrow> rat" where
  "calculatePriorityRating sev descr =
     of_int (Math_round ((severityScore sev + descriptionScore descr) * 10)) / 10"

text \<open>
  The reference definition, in the words of the specification: the severity score is looked
  up in the table \<open>{low: 1, medium: 2, high: 3}\<close>, which has no entry for another string.
\<close>

definition severity_table :: "string \<Rightarrow> rat option" where
  "severity_table = [''low'' \<mapsto> 1, ''medium'' \<mapsto> 2, ''high'' \<mapsto> 3]"

definition score_spec :: "string \<Rightarrow> string \<Rightarrow> rat option" where
  "score_spec sev descr =
     (case severity_table sev of
        None \<Rightarrow> None
      | Some sevScore \<Rightarrow>
          Some (of_int (round ((sevScore + min (of_nat (length descr) / 100) 2) * 10)) / 10))"

section \<open>Submitting a report (ReportIssue.tsx, lines 41--108)\<close>

definition missing_fields_toast :: toast where
  "missing_fields_toast =
     Toast (Some ''destructive'') ''Missing fields''
       ''Please fill in all required fields and verify you are human''"

definition report_submitted_toast :: toast where
  "report_submitted_toast =
     Toast None ''Report submitted'' ''Your issue has been reported successfully''"

definition submission_failed_toast :: toast where
  "submission_failed_toast =
     Toast (Some ''destructive'') ''Submission failed'' ''Please try again later''"

text \<open>\<open>JSON.parse(localStorage.getItem("issuesData") || "{}")\<close>, and the same for the users.\<close>

definition parse_issuesData :: "issues_doc option \<Rightarrow> issues_doc" where
  "parse_issuesData item = (case item of None \<Rightarrow> \<lparr>issues = None\<rparr> | Some d \<Rightarrow> d)"

definition parse_usersData :: "users_doc option \<Rightarrow> users_doc" where
  "parse_usersData item = (case item of None \<Rightarrow> \<lparr>citizens = None\<rparr> | Some d \<Rightarrow> d)"

text \<open>
  Modelled from the spec: \<open>updateUserXP\<close> belongs to the authentication context, which is
  not among the sources. The specification describes it as \<open>updateXP(userId, newValue)\<close> of
  the session provider that supplies the current user's \<open>xpPoints\<close>: it writes the new
  balance of that user.
\<close>

definition updateUserXP :: "string \<Rightarrow> int \<Rightarrow> User option \<Rightarrow> User option" where
  "updateUserXP userId newXP cur =
     (case cur of
        None \<Rightarrow> None
      | Some u \<Rightarrow> if user_id u = userId then Some (u\<lparr>xp_points := newXP\<rparr>) else Some u)"

text \<open>
  The object literal \<open>newIssue\<close> (lines 64--78), for the user \<open>u\<close> of the session;
  \<open>imageUrl\<close> is \<open>null\<close> unless an image was chosen.
\<close>

definition newIssue :: "report_form \<Rightarrow> env \<Rightarrow> User \<Rightarrow> Issue" where
  "newIssue f e u =
     \<lparr>issue_id = random_string e,
      title = f_title f,
      description = f_description f,
      status = ''pending'',
      severity = f_severity f,
      location = f_location f,
      reporter_id = user_id u,
      image_url = (case f_image f of None \<Rightarrow> None | Some file \<Rightarrow> Some (object_url e)),
      created_at = now_iso e,
      solver_id = None,
      solution_image_url = None,
      solved_at = None,
      priorityRating = calculatePriorityRating (f_severity f) (f_description f)\<rparr>"

text \<open>
  The sum of line 90 is a sum of doubles. On integers it is the exact sum rounded to 53
  significant bits, a tie going to the even significand: \<open>shift53\<close> counts the bits beyond
  the 53rd, and \<open>double_of_int\<close> rounds the integer at that bit. The sum of a finite double
  and 50 is finite, so no infinity arises.
\<close>

function shift53 :: "nat \<Rightarrow> nat" where
  "shift53 m = (if m < 2 ^ 53 then 0 else Suc (shift53 (m div 2)))"
  by pat_completeness auto
termination
  by (relation "measure (\<lambda>m. m)") auto

declare shift53.simps [simp del]

definition double_of_int :: "int \<Rightarrow> int" where
  "double_of_int n =
     (let m = nat \<bar>n\<bar>;
          e = shift53 m;
          q = m div 2 ^ e;
          r = m mod 2 ^ e;
          q' = (if 2 * r > 2 ^ e \<or> (2 * r = 2 ^ e \<and> odd q) then q + 1 else q)
      in sgn n * int (q' * 2 ^ e))"

definition js_plus :: "int \<Rightarrow> int \<Rightarrow> int" where
  "js_plus a b = double_of_int (a + b)"

text \<open>
  The body of the \<open>try\<close> block. \<open>user!.id\<close> raises a \<open>TypeError\<close> when there is no user;
  that is before anything is written. \<open>existingData.issues || []\<close> reads a missing list as
  the empty one, \<open>user?.xp_points || 0\<close> is written out, and \<open>+ 50\<close> is the sum of doubles.
\<close>

definition submit_try :: "report_form \<Rightarrow> env \<Rightarrow> world \<Rightarrow> js_error + world" where
  "submit_try f e w =
     (case user w of
        None \<Rightarrow> Inl TypeError
      | Some u \<Rightarrow>
          (let existingData = parse_issuesData (issuesData w);
               updatedIssues =
                 \<lparr>issues = Some ((case issues existingData of None \<Rightarrow> [] | Some old \<Rightarrow> old)
                                  @ [newIssue f e u])\<rparr>;
               newXP = js_plus (if xp_points u = 0 then 0 else xp_points u) 50
           in Inr (w\<lparr>issuesData := Some updatedIssues,
                     user := updateUserXP (user_id u) newXP (user w),
                     toasts := toasts w @ [report_submitted_toast],
                     navigated := navigated w @ [''/citizen/dashboard'']\<rparr>)))"

definition handleSubmit :: "report_form \<Rightarrow> env \<Rightarrow> world \<Rightarrow> world" where
  "handleSubmit f e w =
     (if f_title f = [] \<or> f_description f = [] \<or> f_severity f = [] \<or> \<not> f_verified f
         \<or> f_location f = []
      then w\<lparr>toasts := toasts w @ [missing_fields_toast]\<rparr>
      else (case submit_try f e w of
              Inl err \<Rightarrow>
                w\<lparr>console_errors := console_errors w @ [err],
                  toasts := toasts w @ [submission_failed_toast],
                  loading := False\<rparr>
            | Inr w' \<Rightarrow> w'\<lparr>loading := False\<rparr>))"

text \<open>
  The condition under which line 43 does not return early: every required field is a
  non-empty string and the box "verified" is checked.
\<close>

definition valid_form :: "report_form \<Rightarrow> bool" where
  "valid_form f \<longleftrightarrow>
     f_title f \<noteq> [] \<and> f_description f \<noteq> [] \<and> f_severity f \<noteq> [] \<and> f_location f \<noteq> []
     \<and> f_verified f"

text \<open>The issues in the store: none when the key or the list is absent.\<close>

definition stored_issues :: "world \<Rightarrow> Issue list" where
  "stored_issues w =
     (case issues (parse_issuesData (issuesData w)) of None \<Rightarrow> [] | Some old \<Rightarrow> old)"

section \<open>The dashboard's reads (CitizenDashboard, lines 43--60)\<close>

text \<open>
  \<open>Array.prototype.sort\<close> with a comparison function. ECMAScript requires the sort to be
  stable; for a consistent comparison function the result is then determined, and this
  insertion sort computes it: an element goes before the first one it does not compare
  greater than.
\<close>

fun js_insert :: "('a \<Rightarrow> 'a \<Rightarrow> int) \<Rightarrow> 'a \<Rightarrow> 'a list \<Rightarrow> 'a list" where
  "js_insert cmp x [] = [x]"
| "js_insert cmp x (y # ys) = (if cmp x y \<le> 0 then x # y # ys else y # js_insert cmp x ys)"

fun js_sort :: "('a \<Rightarrow> 'a \<Rightarrow> int) \<Rightarrow> 'a list \<Rightarrow> 'a list" where
  "js_sort cmp [] = []"
| "js_sort cmp (x # xs) = js_insert cmp x (js_sort cmp xs)"

text \<open>The comparison function \<open>(a, b) => b.xp_points - a.xp_points\<close>.\<close>

definition by_xp_desc :: "User \<Rightarrow> User \<Rightarrow> int" where
  "by_xp_desc a b = xp_points b - xp_points a"

text \<open>\<open>[...citizens].sort(...)\<close>, and the leaderboard \<open>.slice(0, 5)\<close> of it.\<close>

definition sortCitizens :: "User list \<Rightarrow> User list" where
  "sortCitizens cs = js_sort by_xp_desc cs"

definition sortedCitizens :: "User list \<Rightarrow> User list" where
  "sortedCitizens cs = take 5 (sortCitizens cs)"

text \<open>
  \<open>data.issues.filter(issue => issue.reporter_id === user?.id)\<close>: a \<open>TypeError\<close> when
  \<open>data.issues\<close> is \<open>undefined\<close>; without a user \<open>user?.id\<close> is \<open>undefined\<close>, which no
  stored reporter equals.
\<close>

definition userIssues :: "world \<Rightarrow> js_error + Issue list" where
  "userIssues w =
     (case issues (parse_issuesData (issuesData w)) of
        None \<Rightarrow> Inl TypeError
      | Some stored \<Rightarrow>
          Inr (filter (\<lambda>issue. Some (reporter_id issue) = map_option user_id (user w)) stored))"

text \<open>\<open>[...storedData.citizens]\<close> raises a \<open>TypeError\<close> when the list is \<open>undefined\<close>.\<close>

definition leaderboard :: "world \<Rightarrow> js_error + User list" where
  "leaderboard w =
     (case citizens (parse_usersData (usersData w)) of
        None \<Rightarrow> Inl TypeError
      | Some cs \<Rightarrow> Inr (sortedCitizens cs))"

text \<open>
  \<open>fetchIssues\<close>: the two reads in one \<open>try\<close> block, whose \<open>catch\<close> hands the error to
  \<open>console.error\<close>. A state that was set before the error stays set.
\<close>

definition fetchIssues :: "world \<Rightarrow> world" where
  "fetchIssues w =
     (case userIssues w of
        Inl err \<Rightarrow> w\<lparr>console_errors := console_errors w @ [err]\<rparr>
      | Inr mine \<Rightarrow>
          (let w1 = w\<lparr>issues_st := mine\<rparr>
           in case leaderboard w1 of
                Inl err \<Rightarrow> w1\<lparr>console_errors := console_errors w1 @ [err]\<rparr>
              | Inr sorted5 \<Rightarrow> w1\<lparr>topCitizens := sorted5\<rparr>))"

text \<open>The state of the dashboard when it is mounted, before the effect has run.\<close>

definition mounted :: "issues_doc option \<Rightarrow> users_doc option \<Rightarrow> User option \<Rightarrow> world" where
  "mounted idata udata u =
     \<lparr>issuesData = idata, usersData = udata, user = u, loading = False, toasts = [],
      navigated = [], console_errors = [], issues_st = [], topCitizens = []\<rparr>"

section \<open>Concrete inputs\<close>

definition alice :: User where
  "alice = \<lparr>user_id = ''u1'', email = ''alice@example.org'', name = ''Alice'',
             type_u = citizen, xp_points = 120\<rparr>"

definition bob :: User where
  "bob = \<lparr>user_id = ''u2'', email = ''bob@example.org'', name = ''Bob'',
           type_u = citizen, xp_points = 300\<rparr>"

definition carol :: User where
  "carol = \<lparr>user_id = ''u3'', email = ''carol@example.org'', name = ''Carol'',
             type_u = citizen, xp_points = 120\<rparr>"


definition pothole :: report_form where
  "pothole = \<lparr>f_title = ''Pothole'', f_description = ''Deep pothole near the school gate'',
               f_severity = ''high'', f_location = ''12.97, 77.59'', f_image = None,
               f_verified = True\<rparr>"

definition streetlight :: report_form where
  "streetlight = \<lparr>f_title = ''Street light'', f_description = ''Lamp is out'',
                   f_severity = ''low'', f_location = ''Main Road'', f_image = Some ''lamp.jpg'',
                   f_verified = True\<rparr>"

text \<open>Two submissions for which \<open>Math.random()\<close> returns the same number.\<close>

definition draw1 :: env where
  "draw1 = \<lparr>random_string = ''0.4213'', now_iso = ''2025-01-01T10:00:00.000Z'',
             object_url = ''blob:1''\<rparr>"

definition draw2 :: env where
  "draw2 = \<lparr>random_string = ''0.4213'', now_iso = ''2025-01-02T11:30:00.000Z'',
             object_url = ''blob:2''\<rparr>"

section \<open>Properties of the priority rating\<close>

lemma Math_round_is_round: "Math_round x = round x"
  by (simp add: Math_round_def round_def)

lemma score_spec_eq:
  "sev \<in> {''low'', ''medium'', ''high''}
     \<Longrightarrow> score_spec sev descr = Some (calculatePriorityRating sev descr)"
  by (auto simp add: score_spec_def severity_table_def calculatePriorityRating_def
        severityScore_def descriptionScore_def Math_round_is_round)

lemma descriptionScore_mono:
  "length d1 \<le> length d2 \<Longrightarrow> descriptionScore d1 \<le> descriptionScore d2"
  by (simp add: descriptionScore_def min_le_iff_disj divide_right_mono)

lemma descriptionScore_cap: "200 \<le> length d \<Longrightarrow> descriptionScore d = 2"
  by (simp add: descriptionScore_def min_def)

lemma Math_round_mono: "x \<le> y \<Longrightarrow> Math_round x \<le> Math_round y"
  by (simp add: Math_round_def floor_mono)

lemma rating_mono:
  "length d1 \<le> length d2
     \<Longrightarrow> calculatePriorityRating sev d1 \<le> calculatePriorityRating sev d2"
  by (simp add: calculatePriorityRating_def divide_right_mono Math_round_mono
        descriptionScore_mono)

lemma rating_at_cap:
  assumes "sev \<in> {''low'', ''medium'', ''high''}" and "200 \<le> length d"
  shows "calculatePriorityRating sev d = severityScore sev + 2"
  using assms
  by (auto simp add: calculatePriorityRating_def descriptionScore_cap severityScore_def
        Math_round_def floor_eq_iff)

text \<open>
  Claim C3. For a severity among \<open>low\<close>, \<open>medium\<close> and \<open>high\<close> and any description, the
  rating the code computes is the one of the reference definition (severity score from the
  table, description score \<open>min (length / 100) 2\<close>, their sum rounded to one decimal place);
  the rating of \<open>high\<close> with the empty description is 3, of \<open>low\<close> with the empty
  description 1, and of \<open>medium\<close> with fifty characters 2.5.
\<close>

theorem rating_equals_reference_definition:
  "(sev \<in> {''low'', ''medium'', ''high''}
      \<longrightarrow> score_spec sev descr = Some (calculatePriorityRating sev descr))
   \<and> calculatePriorityRating ''high'' '''' = 3
   \<and> calculatePriorityRating ''low'' '''' = 1
   \<and> calculatePriorityRating ''medium'' (replicate 50 CHR ''x'') = 5 / 2"
proof -
  have "calculatePriorityRating ''high'' '''' = 3"
    by (simp add: calculatePriorityRating_def severityScore_def descriptionScore_def
          Math_round_def floor_eq_iff)
  moreover have "calculatePriorityRating ''low'' '''' = 1"
    by (simp add: calculatePriorityRating_def severityScore_def descriptionScore_def
          Math_round_def floor_eq_iff)
  moreover have "calculatePriorityRating ''medium'' (replicate 50 CHR ''x'') = 5 / 2"
    by (simp add: calculatePriorityRating_def severityScore_def descriptionScore_def
          Math_round_def floor_eq_iff)
  ultimately show ?thesis
    by (simp add: score_spec_eq)
qed

text \<open>
  The reference definition at \<open>medium\<close> with fifty characters, and at \<open>low\<close> with five
  characters, where the sum times ten is the tie 10.5.
\<close>

theorem rating_equals_reference_definition_witness:
  "''medium'' \<in> {''low'', ''medium'', ''high''}
   \<and> score_spec ''medium'' (replicate 50 CHR ''x'') = Some (5 / 2)
   \<and> score_spec ''low'' ''12345'' = Some (11 / 10)"
  using rating_equals_reference_definition [of "''medium''" "replicate 50 CHR ''x''"]
        rating_equals_reference_definition [of "''low''" "''12345''"]
  by (simp add: calculatePriorityRating_def severityScore_def descriptionScore_def
        Math_round_def floor_eq_iff)

text \<open>
  Claim C4. For a severity among \<open>low\<close>, \<open>medium\<close> and \<open>high\<close>, the rating of a
  description of \<open>L\<close> characters \<open>x\<close> does not decrease when \<open>L\<close> grows, and from 200
  characters on it is constant: the severity score plus two.
\<close>

theorem rating_monotone_in_length_and_capped:
  assumes "sev \<in> {''low'', ''medium'', ''high''}"
  shows "(L1 \<le> L2 \<longrightarrow> calculatePriorityRating sev (replicate L1 CHR ''x'')
                        \<le> calculatePriorityRating sev (replicate L2 CHR ''x''))
       \<and> (200 \<le> L \<longrightarrow> calculatePriorityRating sev (replicate L CHR ''x'')
                          = calculatePriorityRating sev (replicate 200 CHR ''x''))
       \<and> (200 \<le> L \<longrightarrow> calculatePriorityRating sev (replicate L CHR ''x'')
                          = severityScore sev + 2)"
proof -
  have "calculatePriorityRating sev (replicate L1 CHR ''x'')
          \<le> calculatePriorityRating sev (replicate L2 CHR ''x'')" if "L1 \<le> L2"
    using that by (simp add: rating_mono)
  moreover have "calculatePriorityRating sev (replicate L CHR ''x'') = severityScore sev + 2"
    if "200 \<le> L"
    using assms that by (simp add: rating_at_cap)
  moreover have "calculatePriorityRating sev (replicate 200 CHR ''x'') = severityScore sev + 2"
    using assms by (simp add: rating_at_cap)
  ultimately show ?thesis by simp
qed

text \<open>Severity \<open>low\<close> at the lengths 50, 150 and 250.\<close>

theorem rating_monotone_in_length_and_capped_witness:
  "''low'' \<in> {''low'', ''medium'', ''high''} \<and> (50::nat) \<le> 150 \<and> (200::nat) \<le> 250
   \<and> calculatePriorityRating ''low'' (replicate 50 CHR ''x'')
        \<le> calculatePriorityRating ''low'' (replicate 150 CHR ''x'')
   \<and> calculatePriorityRating ''low'' (replicate 250 CHR ''x'')
        = calculatePriorityRating ''low'' (replicate 200 CHR ''x'')
   \<and> calculatePriorityRating ''low'' (replicate 250 CHR ''x'') = 3"
  using rating_monotone_in_length_and_capped [of "''low''" 50 150 250]
  by (simp add: severityScore_def)

text \<open>
  Claim C10. For a severity string that is neither \<open>high\<close> nor \<open>medium\<close> (\<open>low\<close>, the
  empty string, any other value) the rating is computed with the severity score 1: it is
  one plus the description score, rounded to one decimal place, which is the rating of
  \<open>low\<close> for the same description. No such string is refused.
\<close>

theorem other_severity_scored_as_low:
  assumes "sev \<noteq> ''high''" and "sev \<noteq> ''medium''"
  shows "severityScore sev = 1
       \<and> calculatePriorityRating sev descr
           = of_int (Math_round ((1 + descriptionScore descr) * 10)) / 10
       \<and> calculatePriorityRating sev descr
           = of_int \<lfloor>(1 + min (of_nat (length descr) / 100) 2) * 10 + 1 / 2 :: rat\<rfloor> / 10
       \<and> calculatePriorityRating sev descr = calculatePriorityRating ''low'' descr"
  using assms
  by (simp add: calculatePriorityRating_def severityScore_def descriptionScore_def
        Math_round_def)

text \<open>
  The empty severity and the severity \<open>urgent\<close>, with a description of five characters:
  the rating is 1.1, computed from the score 1.
\<close>

theorem other_severity_scored_as_low_witness:
  "'''' \<noteq> ''high'' \<and> '''' \<noteq> ''medium'' \<and> severityScore '''' = 1
   \<and> calculatePriorityRating '''' ''12345'' = 11 / 10
   \<and> calculatePriorityRating '''' ''12345'' = calculatePriorityRating ''low'' ''12345''
   \<and> ''urgent'' \<noteq> ''high'' \<and> ''urgent'' \<noteq> ''medium'' \<and> severityScore ''urgent'' = 1
   \<and> calculatePriorityRating ''urgent'' ''12345'' = 11 / 10"
proof -
  have r: "of_int \<lfloor>(1 + min (of_nat (length ''12345'') / 100) 2) * 10 + 1 / 2 :: rat\<rfloor> / 10
             = (11 / 10 :: rat)"
    by (simp add: floor_eq_iff)
  show ?thesis
    using other_severity_scored_as_low [of "''''" "''12345''"]
          other_severity_scored_as_low [of "''urgent''" "''12345''"]
    unfolding r by simp
qed

section \<open>Properties of a submission\<close>

lemma handleSubmit_invalid:
  "\<not> valid_form f \<Longrightarrow> handleSubmit f e w = w\<lparr>toasts := toasts w @ [missing_fields_toast]\<rparr>"
  by (auto simp add: handleSubmit_def valid_form_def)

lemma shift53_small: "m < 2 ^ 53 \<Longrightarrow> shift53 m = 0"
  by (subst shift53.simps) simp

lemma shift53_2_53: "shift53 (2 ^ 53) = 1"
  by (subst shift53.simps) (simp add: shift53_small)

lemma double_of_int_exact: "\<bar>n\<bar> \<le> 2 ^ 53 \<Longrightarrow> double_of_int n = n"
proof (cases "\<bar>n\<bar> < 2 ^ 53")
  case True
  then have "nat \<bar>n\<bar> < 2 ^ 53" by (simp add: nat_less_iff)
  then have "shift53 (nat \<bar>n\<bar>) = 0" by (rule shift53_small)
  then show ?thesis by (simp add: double_of_int_def Let_def mult_sgn_abs)
next
  case False
  assume "\<bar>n\<bar> \<le> 2 ^ 53"
  with False have a: "\<bar>n\<bar> = 2 ^ 53" by simp
  then have m: "nat \<bar>n\<bar> = 2 ^ 53" by simp
  have "double_of_int n = sgn n * 2 ^ 53"
    unfolding double_of_int_def Let_def m shift53_2_53 by simp
  also have "\<dots> = sgn n * \<bar>n\<bar>" using a by simp
  finally show ?thesis by (simp add: mult_sgn_abs)
qed

lemma js_plus_exact: "\<bar>a + b\<bar> \<le> 2 ^ 53 \<Longrightarrow> js_plus a b = a + b"
  by (simp add: js_plus_def double_of_int_exact)



lemma js_plus_alice: "js_plus (xp_points alice) 50 = 170"
  by (simp add: js_plus_exact alice_def)

lemma handleSubmit_valid:
  assumes "valid_form f" and "user w = Some u"
  shows "handleSubmit f e w =
     w\<lparr>issuesData := Some \<lparr>issues = Some (stored_issues w @ [newIssue f e u])\<rparr>,
       user := Some (u\<lparr>xp_points := js_plus (xp_points u) 50\<rparr>),
       toasts := toasts w @ [report_submitted_toast],
       navigated := navigated w @ [''/citizen/dashboard''],
       loading := False\<rparr>"
  using assms
  by (simp add: handleSubmit_def valid_form_def submit_try_def stored_issues_def
        updateUserXP_def Let_def)

lemma handleSubmit_no_user:
  assumes "valid_form f" and "user w = None"
  shows "handleSubmit f e w =
     w\<lparr>console_errors := console_errors w @ [TypeError],
       toasts := toasts w @ [submission_failed_toast],
       loading := False\<rparr>"
  using assms
  by (simp add: handleSubmit_def valid_form_def submit_try_def)

lemma stored_issues_handleSubmit:
  assumes "valid_form f" and "user w = Some u"
  shows "stored_issues (handleSubmit f e w) = stored_issues w @ [newIssue f e u]"
  by (simp add: handleSubmit_valid [OF assms] stored_issues_def parse_issuesData_def)

lemma stored_issues_mounted: "stored_issues (mounted None udata u) = []"
  by (simp add: stored_issues_def mounted_def parse_issuesData_def)

lemma valid_pothole: "valid_form pothole"
  by (simp add: valid_form_def pothole_def)

lemma valid_streetlight: "valid_form streetlight"
  by (simp add: valid_form_def streetlight_def)




text \<open>
  Claim C2. When the title, the description, the severity or the location is empty, or the
  box is not checked, the submission is refused: the only effect is the toast
  \<open>Missing fields\<close>; the store and the user's points stay as they were.
\<close>

theorem invalid_submission_changes_nothing:
  assumes "f_title f = [] \<or> f_description f = [] \<or> f_severity f = [] \<or> f_location f = []
           \<or> \<not> f_verified f"
  shows "handleSubmit f e w = w\<lparr>toasts := toasts w @ [missing_fields_toast]\<rparr>
       \<and> issuesData (handleSubmit f e w) = issuesData w
       \<and> stored_issues (handleSubmit f e w) = stored_issues w
       \<and> user (handleSubmit f e w) = user w"
proof -
  from assms have "\<not> valid_form f" by (auto simp add: valid_form_def)
  then have "handleSubmit f e w = w\<lparr>toasts := toasts w @ [missing_fields_toast]\<rparr>"
    by (rule handleSubmit_invalid)
  then show ?thesis by (simp add: stored_issues_def)
qed

text \<open>The pothole report without the box checked.\<close>

theorem invalid_submission_changes_nothing_witness:
  "\<not> f_verified (pothole\<lparr>f_verified := False\<rparr>)
   \<and> handleSubmit (pothole\<lparr>f_verified := False\<rparr>) draw1 (mounted None None (Some alice))
     = (mounted None None (Some alice))\<lparr>toasts := [missing_fields_toast]\<rparr>"
  using invalid_submission_changes_nothing
          [of "pothole\<lparr>f_verified := False\<rparr>" draw1 "mounted None None (Some alice)"]
  by (simp add: mounted_def)

text \<open>
  Claim C9. A successful submission keeps every issue that was in the store, unchanged and
  at its position, and the new issue comes after them.
\<close>

theorem submit_preserves_stored_issues:
  assumes "valid_form f" and "user w = Some u"
  shows "take (length (stored_issues w)) (stored_issues (handleSubmit f e w)) = stored_issues w
       \<and> (\<forall>k < length (stored_issues w).
             stored_issues (handleSubmit f e w) ! k = stored_issues w ! k)
       \<and> drop (length (stored_issues w)) (stored_issues (handleSubmit f e w))
           = [newIssue f e u]"
  by (simp add: stored_issues_handleSubmit [OF assms] nth_append)

text \<open>Alice reports the street light after the pothole.\<close>

theorem submit_preserves_stored_issues_witness:
  "valid_form streetlight
   \<and> user (handleSubmit pothole draw1 (mounted None None (Some alice)))
       = Some (alice\<lparr>xp_points := 170\<rparr>)
   \<and> map title (stored_issues (handleSubmit pothole draw1 (mounted None None (Some alice))))
       = [''Pothole'']
   \<and> map title (stored_issues (handleSubmit streetlight draw2
                   (handleSubmit pothole draw1 (mounted None None (Some alice)))))
       = [''Pothole'', ''Street light'']"
proof -
  let ?w0 = "mounted None None (Some alice)"
  let ?w1 = "handleSubmit pothole draw1 ?w0"
  have u0: "user ?w0 = Some alice" by (simp add: mounted_def)
  have u1: "user ?w1 = Some (alice\<lparr>xp_points := 170\<rparr>)"
    by (simp add: handleSubmit_valid [OF valid_pothole u0] js_plus_alice)
  have s1: "stored_issues ?w1 = [newIssue pothole draw1 alice]"
    using stored_issues_handleSubmit [OF valid_pothole u0, of draw1]
    by (simp add: stored_issues_mounted)
  have "drop (length (stored_issues ?w1)) (stored_issues (handleSubmit streetlight draw2 ?w1))
          = [newIssue streetlight draw2 (alice\<lparr>xp_points := 170\<rparr>)]"
       "take (length (stored_issues ?w1)) (stored_issues (handleSubmit streetlight draw2 ?w1))
          = stored_issues ?w1"
    using submit_preserves_stored_issues [OF valid_streetlight u1, of draw2] by simp_all
  then have "stored_issues (handleSubmit streetlight draw2 ?w1)
          = stored_issues ?w1 @ [newIssue streetlight draw2 (alice\<lparr>xp_points := 170\<rparr>)]"
    by (metis append_take_drop_id)
  then show ?thesis
    using valid_streetlight u1 s1 by (simp add: newIssue_def pothole_def streetlight_def)
qed

text \<open>
  Claim C8, as stated, fails: the identifier is the string of \<open>Math.random()\<close> and is not
  compared with the identifiers in the store. Two submissions with the same draw leave two
  issues with one identifier.
\<close>

theorem issue_ids_not_unique_counterexample:
  "\<not> distinct (map issue_id (stored_issues
        (handleSubmit streetlight draw2
           (handleSubmit pothole draw1 (mounted None None (Some alice))))))"
proof -
  let ?w0 = "mounted None None (Some alice)"
  let ?w1 = "handleSubmit pothole draw1 ?w0"
  have u0: "user ?w0 = Some alice" by (simp add: mounted_def)
  have u1: "user ?w1 = Some (alice\<lparr>xp_points := 170\<rparr>)"
    by (simp add: handleSubmit_valid [OF valid_pothole u0] js_plus_alice)
  have s1: "stored_issues ?w1 = [newIssue pothole draw1 alice]"
    using stored_issues_handleSubmit [OF valid_pothole u0, of draw1]
    by (simp add: stored_issues_mounted)
  have s2: "stored_issues (handleSubmit streetlight draw2 ?w1)
      = [newIssue pothole draw1 alice,
         newIssue streetlight draw2 (alice\<lparr>xp_points := 170\<rparr>)]"
    using stored_issues_handleSubmit [OF valid_streetlight u1, of draw2] by (simp add: s1)
  show ?thesis
    unfolding s2 by (simp add: newIssue_def draw1_def draw2_def)
qed

text \<open>
  Claim C8, amended. The identifier of the issue a successful submission creates is the
  string of the random draw; the identifiers in the store are pairwise distinct afterwards
  exactly when they were before and the draw is not among them.
\<close>

theorem issue_id_is_the_random_draw:
  assumes "valid_form f" and "user w = Some u"
  shows "issue_id (last (stored_issues (handleSubmit f e w))) = random_string e
       \<and> (distinct (map issue_id (stored_issues (handleSubmit f e w)))
            \<longleftrightarrow> distinct (map issue_id (stored_issues w))
                \<and> random_string e \<notin> set (map issue_id (stored_issues w)))"
  by (auto simp add: stored_issues_handleSubmit [OF assms] newIssue_def)

text \<open>The first report of a store: its identifier is the draw, and it is the only one.\<close>

theorem issue_id_is_the_random_draw_witness:
  "valid_form pothole \<and> user (mounted None None (Some alice)) = Some alice
   \<and> issue_id (last (stored_issues (handleSubmit pothole draw1 (mounted None None (Some alice)))))
       = ''0.4213''
   \<and> distinct (map issue_id
         (stored_issues (handleSubmit pothole draw1 (mounted None None (Some alice)))))"
proof -
  have u: "user (mounted None None (Some alice)) = Some alice" by (simp add: mounted_def)
  show ?thesis
    using valid_pothole u issue_id_is_the_random_draw [OF valid_pothole u, of draw1]
    by (simp add: stored_issues_mounted draw1_def)
qed

section \<open>Properties of the dashboard's reads\<close>

lemma js_insert_insort_key:
  "js_insert by_xp_desc x ys = insort_key (\<lambda>u. - xp_points u) x ys"
  by (induction ys) (simp_all add: by_xp_desc_def)

lemma sortCitizens_sort_key: "sortCitizens cs = sort_key (\<lambda>u. - xp_points u) cs"
  unfolding sortCitizens_def by (induction cs) (simp_all add: js_insert_insort_key)

lemma mset_sortCitizens: "mset (sortCitizens cs) = mset cs"
  by (simp add: sortCitizens_sort_key)

lemma sorted_sortCitizens: "sorted_wrt (\<lambda>a b. xp_points b \<le> xp_points a) (sortCitizens cs)"
proof -
  have "sorted (map (\<lambda>u. - xp_points u) (sortCitizens cs))"
    by (simp add: sortCitizens_sort_key)
  then show ?thesis by (simp add: sorted_map)
qed

lemma stable_sortCitizens:
  "filter (\<lambda>u. xp_points u = k) (sortCitizens cs) = filter (\<lambda>u. xp_points u = k) cs"
proof -
  have "filter (\<lambda>u. - xp_points u = - k) (sort_key (\<lambda>u. - xp_points u) cs)
      = filter (\<lambda>u. - xp_points u = - k) cs"
    by (rule sort_key_stable)
  then show ?thesis by (simp add: sortCitizens_sort_key)
qed

lemma sorted_sortedCitizens:
  "sorted_wrt (\<lambda>a b. xp_points b \<le> xp_points a) (sortedCitizens cs)"
  unfolding sortedCitizens_def by (rule sorted_wrt_take) (rule sorted_sortCitizens)

lemma fetchIssues_storage:
  "issuesData (fetchIssues w) = issuesData w \<and> usersData (fetchIssues w) = usersData w
   \<and> user (fetchIssues w) = user w"
  by (simp add: fetchIssues_def Let_def split: sum.splits)

lemma userIssues_fetchIssues: "userIssues (fetchIssues w) = userIssues w"
  by (simp add: userIssues_def fetchIssues_storage cong: option.case_cong)

lemma fetchIssues_both:
  assumes "userIssues w = Inr mine" and "leaderboard w = Inr top5"
  shows "fetchIssues w = w\<lparr>issues_st := mine, topCitizens := top5\<rparr>"
  using assms by (simp add: fetchIssues_def leaderboard_def Let_def)

lemma fetchIssues_no_issues:
  assumes "userIssues w = Inl err"
  shows "fetchIssues w = w\<lparr>console_errors := console_errors w @ [err]\<rparr>"
  using assms by (simp add: fetchIssues_def)

lemma fetchIssues_no_citizens:
  assumes "userIssues w = Inr mine" and "leaderboard w = Inl err"
  shows "fetchIssues w = w\<lparr>issues_st := mine, console_errors := console_errors w @ [err]\<rparr>"
  using assms by (simp add: fetchIssues_def leaderboard_def Let_def)

lemma issues_st_fetchIssues:
  assumes "userIssues w = Inr mine"
  shows "issues_st (fetchIssues w) = mine"
  using assms by (simp add: fetchIssues_def Let_def split: sum.splits)

text \<open>
  Claim C5. For every list of citizens in the store, the leaderboard holds at most five
  users, ordered by points descending; it is the first five of the list sorted so, which
  has the users of the stored list and keeps users with equal points in their stored order.
  The read leaves the stored list as it was, and the dashboard shows the leaderboard when
  the read of the issues before it succeeded.
\<close>

theorem leaderboard_top_five_stable:
  assumes "citizens (parse_usersData (usersData w)) = Some cs"
  shows "leaderboard w = Inr (sortedCitizens cs)
       \<and> length (sortedCitizens cs) \<le> 5
       \<and> sorted_wrt (\<lambda>a b. xp_points b \<le> xp_points a) (sortedCitizens cs)
       \<and> sortedCitizens cs = take 5 (sortCitizens cs)
       \<and> mset (sortCitizens cs) = mset cs
       \<and> sorted_wrt (\<lambda>a b. xp_points b \<le> xp_points a) (sortCitizens cs)
       \<and> (\<forall>k. filter (\<lambda>u. xp_points u = k) (sortCitizens cs)
               = filter (\<lambda>u. xp_points u = k) cs)
       \<and> usersData (fetchIssues w) = usersData w
       \<and> (\<forall>mine. userIssues w = Inr mine
             \<longrightarrow> topCitizens (fetchIssues w) = sortedCitizens cs)"
proof -
  have lb: "leaderboard w = Inr (sortedCitizens cs)"
    using assms by (simp add: leaderboard_def)
  have "topCitizens (fetchIssues w) = sortedCitizens cs" if "userIssues w = Inr mine" for mine
    by (simp add: fetchIssues_both [OF that lb])
  moreover have "length (sortedCitizens cs) \<le> 5"
    by (simp add: sortedCitizens_def)
  ultimately show ?thesis
    using lb
    by (simp add: sorted_sortedCitizens sorted_sortCitizens mset_sortCitizens
          stable_sortCitizens fetchIssues_storage sortedCitizens_def [symmetric])
qed

text \<open>
  Seven entries with the points 120, 300, 120, 120, 300, 120 and 300: the three entries of
  Bob come first, then Alice and Carol, who are equal, in their stored order.
\<close>

theorem leaderboard_top_five_stable_witness:
  "citizens (parse_usersData (usersData
       (mounted (Some \<lparr>issues = Some []\<rparr>)
          (Some \<lparr>citizens = Some [alice, bob, carol, alice, bob, carol, bob]\<rparr>) (Some alice))))
     = Some [alice, bob, carol, alice, bob, carol, bob]
   \<and> topCitizens (fetchIssues
       (mounted (Some \<lparr>issues = Some []\<rparr>)
          (Some \<lparr>citizens = Some [alice, bob, carol, alice, bob, carol, bob]\<rparr>) (Some alice)))
     = [bob, bob, bob, alice, carol]"
proof -
  let ?cs = "[alice, bob, carol, alice, bob, carol, bob]"
  let ?w = "mounted (Some \<lparr>issues = Some []\<rparr>) (Some \<lparr>citizens = Some ?cs\<rparr>) (Some alice)"
  have c: "citizens (parse_usersData (usersData ?w)) = Some ?cs"
    by (simp add: mounted_def parse_usersData_def)
  have i: "userIssues ?w = Inr []"
    by (simp add: userIssues_def mounted_def parse_issuesData_def)
  have x: "xp_points alice = 120" "xp_points bob = 300" "xp_points carol = 120"
    by (simp_all add: alice_def bob_def carol_def)
  have s: "sortedCitizens ?cs = [bob, bob, bob, alice, carol]"
    by (simp add: sortedCitizens_def sortCitizens_def by_xp_desc_def x)
  from leaderboard_top_five_stable [OF c] i
  have "topCitizens (fetchIssues ?w) = sortedCitizens ?cs" by simp
  then show ?thesis using c s by simp
qed

text \<open>
  Claim C6. For every list of issues in the store and every user of the session, the read
  returns exactly the stored issues whose reporter is that user, in their stored order, and
  a second read without a write in between returns the same list.
\<close>

theorem userIssues_are_the_reporters_in_order:
  assumes "issues (parse_issuesData (issuesData w)) = Some stored" and "user w = Some u"
  shows "userIssues w = Inr (filter (\<lambda>i. reporter_id i = user_id u) stored)
       \<and> issues_st (fetchIssues w) = filter (\<lambda>i. reporter_id i = user_id u) stored
       \<and> set (issues_st (fetchIssues w)) = {i \<in> set stored. reporter_id i = user_id u}
       \<and> subseq (issues_st (fetchIssues w)) stored
       \<and> userIssues (fetchIssues w) = userIssues w
       \<and> issues_st (fetchIssues (fetchIssues w)) = issues_st (fetchIssues w)"
proof -
  have r: "userIssues w = Inr (filter (\<lambda>i. reporter_id i = user_id u) stored)"
    using assms by (simp add: userIssues_def)
  have again: "userIssues (fetchIssues w) = Inr (filter (\<lambda>i. reporter_id i = user_id u) stored)"
    using r by (simp add: userIssues_fetchIssues)
  show ?thesis
    using r by (simp add: issues_st_fetchIssues [OF r] issues_st_fetchIssues [OF again]
                  userIssues_fetchIssues)
qed

text \<open>Three stored issues, the second one reported by Bob; Alice reads.\<close>

theorem userIssues_are_the_reporters_in_order_witness:
  "issues (parse_issuesData (issuesData
       (mounted (Some \<lparr>issues = Some [newIssue pothole draw1 alice, newIssue streetlight draw2 bob,
                                        newIssue streetlight draw1 alice]\<rparr>) None (Some alice))))
     = Some [newIssue pothole draw1 alice, newIssue streetlight draw2 bob,
             newIssue streetlight draw1 alice]
   \<and> user (mounted (Some \<lparr>issues = Some [newIssue pothole draw1 alice,
                                           newIssue streetlight draw2 bob,
                                           newIssue streetlight draw1 alice]\<rparr>) None (Some alice))
     = Some alice
   \<and> issues_st (fetchIssues
       (mounted (Some \<lparr>issues = Some [newIssue pothole draw1 alice, newIssue streetlight draw2 bob,
                                        newIssue streetlight draw1 alice]\<rparr>) None (Some alice)))
     = [newIssue pothole draw1 alice, newIssue streetlight draw1 alice]"
proof -
  let ?stored = "[newIssue pothole draw1 alice, newIssue streetlight draw2 bob,
                  newIssue streetlight draw1 alice]"
  let ?w = "mounted (Some \<lparr>issues = Some ?stored\<rparr>) None (Some alice)"
  have s: "issues (parse_issuesData (issuesData ?w)) = Some ?stored"
    by (simp add: mounted_def parse_issuesData_def)
  have u: "user ?w = Some alice" by (simp add: mounted_def)
  have r: "reporter_id (newIssue pothole draw1 alice) = user_id alice"
          "reporter_id (newIssue streetlight draw1 alice) = user_id alice"
          "reporter_id (newIssue streetlight draw2 bob) \<noteq> user_id alice"
    by (simp_all add: newIssue_def alice_def bob_def)
  from userIssues_are_the_reporters_in_order [OF s u]
  have "issues_st (fetchIssues ?w) = filter (\<lambda>i. reporter_id i = user_id alice) ?stored"
    by simp
  then show ?thesis using s u r by simp
qed

text \<open>
  Claim C7 at a store that has citizens and no issues yet (the key \<open>issuesData\<close> is not
  set): the read of the issues raises a \<open>TypeError\<close>, which the handler passes to
  \<open>console.error\<close>, and the leaderboard, which would be Bob before Alice, is not read: the
  dashboard shows none. A store with issues and no list of citizens raises at the
  leaderboard.
\<close>

theorem missing_list_raises_TypeError:
  "userIssues (mounted None (Some \<lparr>citizens = Some [alice, bob]\<rparr>) (Some alice)) = Inl TypeError
   \<and> leaderboard (mounted None (Some \<lparr>citizens = Some [alice, bob]\<rparr>) (Some alice))
       = Inr [bob, alice]
   \<and> fetchIssues (mounted None (Some \<lparr>citizens = Some [alice, bob]\<rparr>) (Some alice))
       = (mounted None (Some \<lparr>citizens = Some [alice, bob]\<rparr>) (Some alice))
           \<lparr>console_errors := [TypeError]\<rparr>
   \<and> topCitizens (fetchIssues (mounted None (Some \<lparr>citizens = Some [alice, bob]\<rparr>) (Some alice)))
       = []
   \<and> leaderboard (mounted (Some \<lparr>issues = Some []\<rparr>) None (Some alice)) = Inl TypeError"
proof -
  let ?w = "mounted None (Some \<lparr>citizens = Some [alice, bob]\<rparr>) (Some alice)"
  have a: "userIssues ?w = Inl TypeError"
    by (simp add: userIssues_def mounted_def parse_issuesData_def)
  have x: "xp_points alice = 120" "xp_points bob = 300"
    by (simp_all add: alice_def bob_def)
  have b: "leaderboard ?w = Inr [bob, alice]"
    by (simp add: leaderboard_def mounted_def parse_usersData_def sortedCitizens_def
          sortCitizens_def by_xp_desc_def x)
  have c: "fetchIssues ?w = ?w\<lparr>console_errors := [TypeError]\<rparr>"
    by (simp add: fetchIssues_no_issues [OF a]) (simp add: mounted_def)
  have d: "topCitizens (fetchIssues ?w) = []"
    unfolding c by (simp add: mounted_def)
  have e: "leaderboard (mounted (Some \<lparr>issues = Some []\<rparr>) None (Some alice)) = Inl TypeError"
    by (simp add: leaderboard_def mounted_def parse_usersData_def)
  show ?thesis using a b c d e by simp
qed

end
